theory Spec2Isabelle
  imports Main
begin

section \<open>JavaScript values used by the transcript logger\<close>

text \<open>
  The module under study is \<^verbatim>\<open>src/transcript-logger.js\<close>, the class
  \<^verbatim>\<open>TranscriptLogger\<close>. JavaScript strings are modelled as \<^typ>\<open>string\<close> (exact for
  ASCII text, where code units, characters and bytes coincide) and JavaScript numbers that
  hold integers as \<^typ>\<open>int\<close>. Numbers are IEEE doubles in the code: where the model
  computes on integers it stays within the range in which the doubles are exact, and
  outside that range it hands over to the engine, which is a parameter (see
  \<open>Number_toString\<close> and \<open>js_plus\<close>).
\<close>

subsection \<open>Number to string\<close>

definition digit_char :: "nat \<Rightarrow> char" where
  "digit_char d = ''0123456789'' ! d"

fun show_nat :: "nat \<Rightarrow> string" where
  "show_nat n = (if n < 10 then [digit_char n] else show_nat (n div 10) @ [digit_char (n mod 10)])"

declare show_nat.simps [simp del]

text \<open>The decimal digits of an integer, with a minus sign.\<close>

definition show_int :: "int \<Rightarrow> string" where
  "show_int i = (if i < 0 then CHR ''-'' # show_nat (nat (- i)) else show_nat (nat i))"

text \<open>
  \<^verbatim>\<open>Number.prototype.toString\<close> prints the shortest digits that read back as the same
  double, and switches to exponent notation from \<open>10\<^sup>2\<^sup>1\<close> on. For the double nearest
  to an integer \<open>n\<close> these are the decimal digits of \<open>n\<close> in two cases: \<open>n\<close> is at
  most \<open>2\<^sup>5\<^sup>3\<close> in magnitude, where every integer is a double of its own; or \<open>n\<close>
  is below \<open>10\<^sup>2\<^sup>1\<close> in magnitude and a multiple of \<open>10\<^sup>6\<close>, so that it has at most
  15 significant digits, which a double keeps apart. Everywhere else the text is what the
  engine prints for the double nearest to \<open>n\<close>: the parameter \<open>engine\<close>.
\<close>

definition exact_digits :: "int \<Rightarrow> bool" where
  "exact_digits n =
     (\<bar>n\<bar> \<le> 9007199254740992 \<or> (\<bar>n\<bar> < 1000000000000000000000 \<and> n mod 1000000 = 0))"

definition Number_toString :: "(int \<Rightarrow> string) \<Rightarrow> int \<Rightarrow> string" where
  "Number_toString engine n = (if exact_digits n then show_int n else engine n)"

subsection \<open>Errors\<close>

text \<open>A thrown value: the class of the error and its \<^verbatim>\<open>message\<close>.\<close>

datatype js_error = Error string | RangeError string | TypeError string

fun message :: "js_error \<Rightarrow> string" where
  "message (Error m) = m"
| "message (RangeError m) = m"
| "message (TypeError m) = m"

subsection \<open>The falsy defaults of \<^verbatim>\<open>||\<close>\<close>

text \<open>\<^verbatim>\<open>x || d\<close> on an optional string: \<^verbatim>\<open>undefined\<close> and the empty string are falsy.\<close>

definition or_string :: "string option \<Rightarrow> string \<Rightarrow> string" where
  "or_string x d = (case x of None \<Rightarrow> d | Some s \<Rightarrow> if s = [] then d else s)"

text \<open>\<^verbatim>\<open>x || d\<close> on an optional number: \<^verbatim>\<open>undefined\<close> and \<^verbatim>\<open>0\<close> are falsy.\<close>

definition or_number :: "int option \<Rightarrow> int \<Rightarrow> int" where
  "or_number x d = (case x of None \<Rightarrow> d | Some n \<Rightarrow> if n = 0 then d else n)"

text \<open>\<^verbatim>\<open>Array.prototype.join\<close> on an array of strings.\<close>

fun join :: "string \<Rightarrow> string list \<Rightarrow> string" where
  "join sep [] = []"
| "join sep [x] = x"
| "join sep (x # y # ys) = x @ sep @ join sep (y # ys)"

subsection \<open>Dates\<close>

text \<open>
  \<^verbatim>\<open>new Date(t).toISOString()\<close> throws a RangeError when \<^verbatim>\<open>t\<close> is not a time value,
  which for an integer means a magnitude above 8.64e15 milliseconds. The ISO-8601 text of
  a time value is kept symbolic: \<open>ISOString t\<close> stands for the text that renders instant
  \<open>t\<close>.
\<close>

datatype iso_string = ISOString int

definition toISOString :: "int \<Rightarrow> js_error + iso_string" where
  "toISOString t =
     (if \<bar>t\<bar> \<le> 8640000000000000 then Inr (ISOString t)
      else Inl (RangeError ''Invalid time value''))"

section \<open>Data model\<close>

subsection \<open>The transcript event\<close>

record complexity =
  level :: "string option"

record metadata =
  safetyFlags :: "string list option"
  vocabularyComplexity :: "complexity option"
  grammarComplexity :: "complexity option"
  turnDuration :: "int option"
  messageId :: "string option"

record conv_context =
  conversationFlow :: "string option"
  userIntent :: "string option"

text \<open>The field \<^verbatim>\<open>context\<close> of the source is \<open>context'\<close> here.\<close>

record transcript =
  sessionId :: string
  turnNumber :: int
  timestamp :: int
  messageType :: string
  content :: "string option"
  metadata :: "metadata option"
  context' :: "conv_context option"

subsection \<open>The log entry sent to Loki\<close>

text \<open>
  The payload is the object handed to \<^verbatim>\<open>JSON.stringify\<close>; the model keeps the object.
  Its fields carry the prefix \<open>p_\<close>.
\<close>

record payload =
  p_timestamp :: iso_string
  p_level :: string
  p_message :: string
  p_sessionId :: string
  p_turnNumber :: int
  p_messageType :: string
  p_content :: "string option"
  p_metadata :: "metadata option"
  p_context :: "conv_context option"
  p_contentLength :: nat
  p_safetyFlags :: "string list"
  p_vocabularyComplexity :: string
  p_grammarComplexity :: string
  p_turnDuration :: int
  p_messageId :: string

record stream_labels =
  job :: string
  session_id :: string
  message_type :: string
  turn_number :: string
  content_length :: string
  safety_flags :: string
  vocabulary_complexity :: string
  grammar_complexity :: string
  conversation_flow :: string
  user_intent :: string

text \<open>The field \<^verbatim>\<open>values\<close> of the source is \<open>values'\<close> here: pairs of timestamp and payload.\<close>

record log_stream =
  stream :: stream_labels
  values' :: "(string \<times> payload) list"

record log_entry =
  streams :: "log_stream list"

subsection \<open>Decoded responses\<close>

text \<open>
  What \<^verbatim>\<open>JSON.parse\<close> returns. Numbers are the integers; an object is the list of its
  members, each key once. \<^verbatim>\<open>JSON.parse\<close> itself belongs to the platform and is a parameter
  of the functions below: \<open>Inl m\<close> is the SyntaxError with message \<open>m\<close>.
\<close>

datatype json =
  JNull | JBool bool | JNumber int | JString string | JArray "json list"
  | JObject "(string \<times> json) list"

type_synonym json_parser = "string \<Rightarrow> string + json"

subsection \<open>The logger object, its counters and the world around it\<close>

record metrics =
  transcriptEntriesTotal :: nat
  transcriptErrorsTotal :: nat
  lastTranscriptTimestamp :: "int option"

text \<open>
  \<^verbatim>\<open>this.metrics\<close> is a mutable object; the logger holds a reference to it, and the
  objects live in a store indexed by reference.
\<close>

record logger =
  lokiEndpoint :: string
  serviceName :: string
  enabled :: bool
  metrics_ref :: nat

text \<open>
  Both network calls go to localhost:3100. A push is the POST of
  \<^verbatim>\<open>JSON.stringify(logEntry)\<close> to \<^verbatim>\<open>/loki/api/v1/push\<close>; a query is the GET of a path.
\<close>

datatype http_request = PushRequest log_entry | QueryRequest string

text \<open>
  What a request ends with: a response (status code and the whole body), or the
  \<^verbatim>\<open>error\<close> event of the request with its message.
\<close>

datatype http_outcome = Response nat string | RequestError string

text \<open>
  The world: the store of metrics objects, the next free reference, the requests sent so
  far, oldest first, and the number of times the clock has been read.
\<close>

record world =
  metrics_store :: "nat \<Rightarrow> metrics"
  next_ref :: nat
  sent :: "http_request list"
  clock_reads :: nat

text \<open>
  The surroundings the module does not control: how the backend answers a request, given
  all the requests sent so far (the last one is the request being answered); what each
  call of \<^verbatim>\<open>Date.now()\<close> reads (milliseconds), by the number of calls before it; and the
  engine where the model does not compute: the text of a number outside the exact range
  (see \<open>Number_toString\<close>) and the operator \<^verbatim>\<open>+\<close> on other operands than two integers
  with an exact sum (see \<open>js_plus\<close>).
\<close>

record env =
  backend :: "http_request list \<Rightarrow> http_outcome"
  date_now :: "nat \<Rightarrow> int"
  number_text :: "int \<Rightarrow> string"
  plus :: "json \<Rightarrow> json \<Rightarrow> json"

text \<open>One call of \<^verbatim>\<open>Date.now()\<close>.\<close>

definition Date_now :: "env \<Rightarrow> world \<Rightarrow> int \<times> world" where
  "Date_now e w = (date_now e (clock_reads w), w\<lparr>clock_reads := Suc (clock_reads w)\<rparr>)"

section \<open>The Record Builder: \<^verbatim>\<open>prepareLogEntry\<close>\<close>

definition prepareLogEntry :: "env \<Rightarrow> logger \<Rightarrow> transcript \<Rightarrow> js_error + log_entry" where
  "prepareLogEntry e this t =
     (case toISOString (timestamp t) of
        Inl err \<Rightarrow> Inl err
      | Inr timestamp' \<Rightarrow>
          (let flags = (case metadata t of None \<Rightarrow> []
                        | Some m \<Rightarrow> (case safetyFlags m of None \<Rightarrow> [] | Some fs \<Rightarrow> fs));
               safetyFlagsStr = (if length flags > 0 then join '','' flags else ''none'');
               vocabComplexity =
                 or_string (case metadata t of None \<Rightarrow> None
                            | Some m \<Rightarrow> (case vocabularyComplexity m of None \<Rightarrow> None
                                        | Some c \<Rightarrow> level c)) ''unknown'';
               grammarComplexity' =
                 or_string (case metadata t of None \<Rightarrow> None
                            | Some m \<Rightarrow> (case grammarComplexity m of None \<Rightarrow> None
                                        | Some c \<Rightarrow> level c)) ''unknown'';
               contentLength = (case content t of None \<Rightarrow> 0 | Some c \<Rightarrow> length c)
           in Inr \<lparr>streams =
                [\<lparr>stream =
                    \<lparr>job = serviceName this,
                     session_id = sessionId t,
                     message_type = messageType t,
                     turn_number = Number_toString (number_text e) (turnNumber t),
                     content_length = Number_toString (number_text e) (int contentLength),
                     safety_flags = safetyFlagsStr,
                     vocabulary_complexity = vocabComplexity,
                     grammar_complexity = grammarComplexity',
                     conversation_flow =
                       or_string (case context' t of None \<Rightarrow> None
                                  | Some c \<Rightarrow> conversationFlow c) ''unknown'',
                     user_intent =
                       or_string (case context' t of None \<Rightarrow> None
                                  | Some c \<Rightarrow> userIntent c) ''unknown''\<rparr>,
                  values' =
                    [(Number_toString (number_text e) (timestamp t * 1000000),
                      \<lparr>p_timestamp = timestamp',
                       p_level = ''info'',
                       p_message = ''Transcript recorded'',
                       p_sessionId = sessionId t,
                       p_turnNumber = turnNumber t,
                       p_messageType = messageType t,
                       p_content = content t,
                       p_metadata = metadata t,
                       p_context = context' t,
                       p_contentLength = contentLength,
                       p_safetyFlags = flags,
                       p_vocabularyComplexity = vocabComplexity,
                       p_grammarComplexity = grammarComplexity',
                       p_turnDuration =
                         or_number (case metadata t of None \<Rightarrow> None
                                    | Some m \<Rightarrow> turnDuration m) 0,
                       p_messageId =
                         or_string (case metadata t of None \<Rightarrow> None
                                    | Some m \<Rightarrow> messageId m) ''unknown''\<rparr>)]\<rparr>]\<rparr>))"

section \<open>The Ingestion Client\<close>

subsection \<open>Construction\<close>

record logger_options =
  o_lokiEndpoint :: "string option"
  o_serviceName :: "string option"
  o_enabled :: "bool option"

text \<open>
  The constructor: \<^verbatim>\<open>options.enabled !== false\<close> is true unless the option is the
  boolean false; the object literal of \<^verbatim>\<open>this.metrics\<close> is a new object at each call.
\<close>

definition new_TranscriptLogger :: "logger_options \<Rightarrow> world \<Rightarrow> logger \<times> world" where
  "new_TranscriptLogger options w =
     (let r = next_ref w in
      (\<lparr>lokiEndpoint = or_string (o_lokiEndpoint options) ''http://localhost:3100'',
        serviceName = or_string (o_serviceName options) ''zaralive-transcripts'',
        enabled = (o_enabled options \<noteq> Some False),
        metrics_ref = r\<rparr>,
       w\<lparr>metrics_store := (metrics_store w)
            (r := \<lparr>transcriptEntriesTotal = 0, transcriptErrorsTotal = 0,
                   lastTranscriptTimestamp = None\<rparr>),
         next_ref := Suc r\<rparr>))"

subsection \<open>\<^verbatim>\<open>sendToLoki\<close>\<close>

definition sendToLoki :: "env \<Rightarrow> log_entry \<Rightarrow> world \<Rightarrow> (js_error + string) \<times> world" where
  "sendToLoki e logEntry w =
     (let w' = w\<lparr>sent := sent w @ [PushRequest logEntry]\<rparr> in
      case backend e (sent w') of
        Response statusCode data \<Rightarrow>
          if statusCode \<ge> 200 \<and> statusCode < 300 then (Inr data, w')
          else (Inl (Error (''Loki responded with status '' @ show_nat statusCode @ '': '' @ data)),
                w')
      | RequestError m \<Rightarrow> (Inl (Error (''Failed to send to Loki: '' @ m)), w'))"

subsection \<open>\<^verbatim>\<open>updateMetrics\<close> and \<^verbatim>\<open>getMetrics\<close>\<close>

definition updateMetrics :: "env \<Rightarrow> logger \<Rightarrow> transcript \<Rightarrow> string \<Rightarrow> world \<Rightarrow> world" where
  "updateMetrics e this t status w =
     (if status = ''success'' then
        (let (now, w') = Date_now e w;
             m = metrics_store w' (metrics_ref this)
         in w'\<lparr>metrics_store := (metrics_store w')
                (metrics_ref this :=
                   m\<lparr>transcriptEntriesTotal := transcriptEntriesTotal m + 1,
                     lastTranscriptTimestamp := Some now\<rparr>)\<rparr>)
      else
        (let m = metrics_store w (metrics_ref this)
         in w\<lparr>metrics_store := (metrics_store w)
               (metrics_ref this :=
                  m\<lparr>transcriptErrorsTotal := transcriptErrorsTotal m + 1\<rparr>)\<rparr>))"

record metrics_snapshot =
  transcript_entries_total :: nat
  transcript_errors_total :: nat
  last_transcript_timestamp :: "int option"

definition getMetrics :: "logger \<Rightarrow> world \<Rightarrow> metrics_snapshot" where
  "getMetrics this w =
     (let m = metrics_store w (metrics_ref this) in
      \<lparr>transcript_entries_total = transcriptEntriesTotal m,
       transcript_errors_total = transcriptErrorsTotal m,
       last_transcript_timestamp = lastTranscriptTimestamp m\<rparr>)"

subsection \<open>\<^verbatim>\<open>logTranscript\<close>\<close>

text \<open>
  The promise of \<^verbatim>\<open>logTranscript\<close>: \<open>Inr ()\<close> when it resolves, \<open>Inl e\<close> when it
  rejects with \<open>e\<close>. The console lines are not modelled.
\<close>

definition logTranscript :: "env \<Rightarrow> logger \<Rightarrow> transcript \<Rightarrow> world \<Rightarrow> (js_error + unit) \<times> world" where
  "logTranscript e this t w =
     (if \<not> enabled this then (Inr (), w)
      else
        (case prepareLogEntry e this t of
           Inl err \<Rightarrow> (Inl err, updateMetrics e this t ''error'' w)
         | Inr logEntry \<Rightarrow>
             (case sendToLoki e logEntry w of
                (Inl err, w') \<Rightarrow> (Inl err, updateMetrics e this t ''error'' w')
              | (Inr _, w') \<Rightarrow> (Inr (), updateMetrics e this t ''success'' w'))))"

subsection \<open>\<^verbatim>\<open>logTranscripts\<close>\<close>

record batch_result =
  r_transcript :: transcript
  r_status :: string
  r_error :: "string option"

text \<open>The \<^verbatim>\<open>for\<close> loop of \<^verbatim>\<open>logTranscripts\<close>, with the array \<^verbatim>\<open>results\<close> it pushes to.\<close>

fun logTranscripts_loop ::
  "env \<Rightarrow> logger \<Rightarrow> transcript list \<Rightarrow> batch_result list \<Rightarrow> world \<Rightarrow> batch_result list \<times> world"
where
  "logTranscripts_loop e this [] results w = (results, w)"
| "logTranscripts_loop e this (t # ts) results w =
     (case logTranscript e this t w of
        (Inr _, w') \<Rightarrow>
          logTranscripts_loop e this ts
            (results @ [\<lparr>r_transcript = t, r_status = ''success'', r_error = None\<rparr>]) w'
      | (Inl err, w') \<Rightarrow>
          logTranscripts_loop e this ts
            (results @ [\<lparr>r_transcript = t, r_status = ''error'', r_error = Some (message err)\<rparr>]) w')"

definition logTranscripts :: "env \<Rightarrow> logger \<Rightarrow> transcript list \<Rightarrow> world \<Rightarrow> batch_result list \<times> world" where
  "logTranscripts e this transcripts w = logTranscripts_loop e this transcripts [] w"

section \<open>The Query Client\<close>

subsection \<open>\<^verbatim>\<open>encodeURIComponent\<close>\<close>

definition uri_unreserved :: "char \<Rightarrow> bool" where
  "uri_unreserved c =
     (c \<in> set (''ABCDEFGHIJKLMNOPQRSTUVWXYZabcdefghijklmnopqrstuvwxyz0123456789-_.!~*()''
               @ [CHR 0x27]))"

definition hex_digit :: "nat \<Rightarrow> char" where
  "hex_digit d = ''0123456789ABCDEF'' ! d"

definition encodeURIComponent :: "string \<Rightarrow> string" where
  "encodeURIComponent s =
     concat (map (\<lambda>c. if uri_unreserved c then [c]
                       else [CHR ''%'', hex_digit (of_char c div 16), hex_digit (of_char c mod 16)]) s)"

subsection \<open>\<^verbatim>\<open>searchTranscripts\<close>\<close>

text \<open>
  \<^verbatim>\<open>bound || fallback\<close> for a bound of the caller: the fallback, which reads the clock,
  is evaluated only when the bound is left out or is 0.
\<close>

definition bound_or :: "int option \<Rightarrow> (world \<Rightarrow> int \<times> world) \<Rightarrow> world \<Rightarrow> int \<times> world" where
  "bound_or bound fallback w =
     (case bound of None \<Rightarrow> fallback w | Some b \<Rightarrow> if b = 0 then fallback w else (b, w))"

definition searchTranscripts ::
  "json_parser \<Rightarrow> env \<Rightarrow> string \<Rightarrow> int option \<Rightarrow> int option \<Rightarrow> world \<Rightarrow> (js_error + json) \<times> world"
where
  "searchTranscripts JSON_parse e query startTime endTime w =
     (let encodedQuery = encodeURIComponent query;
          (start, w1) =
            bound_or startTime
              (\<lambda>w. let (now, w') = Date_now e w in (now - 24 * 60 * 60 * 1000, w')) w;
          (end', w2) = bound_or endTime (Date_now e) w1;
          w' = w2\<lparr>sent := sent w2 @
                 [QueryRequest (''/loki/api/v1/query_range?query='' @ encodedQuery
                    @ ''&start='' @ Number_toString (number_text e) (start * 1000000)
                    @ ''&end='' @ Number_toString (number_text e) (end' * 1000000))]\<rparr>
      in case backend e (sent w') of
           Response statusCode data \<Rightarrow>
             (case JSON_parse data of
                Inr response \<Rightarrow> (Inr response, w')
              | Inl m \<Rightarrow> (Inl (Error (''Failed to parse Loki response: '' @ m)), w'))
         | RequestError m \<Rightarrow> (Inl (Error (''Failed to query Loki: '' @ m)), w'))"

section \<open>The Statistics Aggregator\<close>

subsection \<open>Property reads on decoded responses\<close>

text \<open>
  The values the chain \<^verbatim>\<open>logs.data?.result?.[0]?.values?.length\<close> passes through: a
  decoded value, \<^verbatim>\<open>undefined\<close>, or the method \<^verbatim>\<open>Array.prototype.values\<close>, which is
  what \<^verbatim>\<open>.values\<close> reads on an array.
\<close>

datatype js_value = Undefined | Json json | ArrayValuesFunction

text \<open>
  \<open>get v k\<close> is \<^verbatim>\<open>v[k]\<close> for the keys the module reads (data, result, 0, values, length)
  on a value \<open>v\<close> that is neither null nor undefined. The method takes no argument, so
  its \<^verbatim>\<open>length\<close> is 0.
\<close>

fun get :: "js_value \<Rightarrow> string \<Rightarrow> js_value" where
  "get (Json (JObject members)) k =
     (case map_of members k of None \<Rightarrow> Undefined | Some v \<Rightarrow> Json v)"
| "get (Json (JArray xs)) k =
     (if k = ''length'' then Json (JNumber (int (length xs)))
      else if k = ''values'' then ArrayValuesFunction
      else if k = ''0'' then (case xs of [] \<Rightarrow> Undefined | x # _ \<Rightarrow> Json x)
      else Undefined)"
| "get (Json (JString s)) k =
     (if k = ''length'' then Json (JNumber (int (length s)))
      else if k = ''0'' then (case s of [] \<Rightarrow> Undefined | c # _ \<Rightarrow> Json (JString [c]))
      else Undefined)"
| "get ArrayValuesFunction k = (if k = ''length'' then Json (JNumber 0) else Undefined)"
| "get v k = Undefined"

text \<open>\<^verbatim>\<open>v?.[k]\<close>: undefined when \<open>v\<close> is null or undefined.\<close>

definition opt_get :: "js_value \<Rightarrow> string \<Rightarrow> js_value" where
  "opt_get v k = (if v = Undefined \<or> v = Json JNull then Undefined else get v k)"

text \<open>
  \<^verbatim>\<open>logs.data?.result?.[0]?.values?.length\<close>. The first read has no \<^verbatim>\<open>?.\<close> and throws a
  TypeError on null (the text of its message is the engine's and is only printed). Reading
  \<^verbatim>\<open>length\<close> gives a decoded value or undefined (\<open>None\<close>).
\<close>

definition values_length :: "json \<Rightarrow> js_error + json option" where
  "values_length logs =
     (if logs = JNull then Inl (TypeError ''Cannot read properties of null'')
      else
        (case opt_get (opt_get (opt_get (opt_get (get (Json logs) ''data'') ''result'') ''0'')
                 ''values'') ''length'' of
           Json n \<Rightarrow> Inr (Some n)
         | _ \<Rightarrow> Inr None))"

fun truthy :: "json \<Rightarrow> bool" where
  "truthy JNull = False"
| "truthy (JBool b) = b"
| "truthy (JNumber n) = (n \<noteq> 0)"
| "truthy (JString s) = (s \<noteq> [])"
| "truthy (JArray xs) = True"
| "truthy (JObject members) = True"

text \<open>\<^verbatim>\<open>x || 0\<close>\<close>

definition or_zero :: "json option \<Rightarrow> json" where
  "or_zero x = (case x of None \<Rightarrow> JNumber 0 | Some v \<Rightarrow> if truthy v then v else JNumber 0)"

text \<open>
  \<^verbatim>\<open>a + b\<close>. The model adds two integers that are doubles of their own with a sum that is
  one too; every other sum, and every concatenation, is the engine's.
\<close>

definition js_plus :: "env \<Rightarrow> json \<Rightarrow> json \<Rightarrow> json" where
  "js_plus e a b =
     (case (a, b) of
        (JNumber x, JNumber y) \<Rightarrow>
          if \<bar>x\<bar> \<le> 9007199254740992 \<and> \<bar>y\<bar> \<le> 9007199254740992 \<and> \<bar>x + y\<bar> \<le> 9007199254740992
          then JNumber (x + y) else plus e a b
      | _ \<Rightarrow> plus e a b)"

subsection \<open>\<^verbatim>\<open>getTranscriptStats\<close>\<close>

record transcript_stats =
  timeRange :: string
  userMessages :: json
  zaraMessages :: json
  totalMessages :: json
  startTime :: iso_string
  endTime :: iso_string

text \<open>The object literal of the \<^verbatim>\<open>return\<close>; a throw while it is built is \<open>Inl\<close>.\<close>

definition stats_object ::
  "env \<Rightarrow> string \<Rightarrow> json \<Rightarrow> json \<Rightarrow> int \<Rightarrow> int \<Rightarrow> js_error + transcript_stats"
where
  "stats_object e timeRange' userLogs zaraLogs start end' =
     (case values_length userLogs of
        Inl err \<Rightarrow> Inl err
      | Inr u \<Rightarrow>
          (case values_length zaraLogs of
             Inl err \<Rightarrow> Inl err
           | Inr z \<Rightarrow>
               (case toISOString start of
                  Inl err \<Rightarrow> Inl err
                | Inr s \<Rightarrow>
                    (case toISOString end' of
                       Inl err \<Rightarrow> Inl err
                     | Inr en \<Rightarrow>
                         Inr \<lparr>timeRange = timeRange',
                              userMessages = or_zero u,
                              zaraMessages = or_zero z,
                              totalMessages = js_plus e (or_zero u) (or_zero z),
                              startTime = s,
                              endTime = en\<rparr>))))"

text \<open>The \<^verbatim>\<open>switch\<close> on the name of the window: \<open>start\<close> from \<open>end\<close>.\<close>

definition window_start :: "string \<Rightarrow> int \<Rightarrow> int" where
  "window_start timeRange' end' =
     (if timeRange' = ''1h'' then end' - 60 * 60 * 1000
      else if timeRange' = ''24h'' then end' - 24 * 60 * 60 * 1000
      else if timeRange' = ''7d'' then end' - 7 * 24 * 60 * 60 * 1000
      else end' - 60 * 60 * 1000)"

definition userQuery :: "logger \<Rightarrow> string" where
  \<open>userQuery this = ''{job="'' @ serviceName this @ ''", message_type="user"}''\<close>

definition zaraQuery :: "logger \<Rightarrow> string" where
  \<open>zaraQuery this = ''{job="'' @ serviceName this @ ''", message_type="zara"}''\<close>

text \<open>
  \<^verbatim>\<open>Promise.all\<close> of two promises: the pair of their values, or a rejection as soon as one
  rejects. Which reason wins when both reject depends on timing; the caller only prints it.
\<close>

definition promise_all :: "js_error + 'a \<Rightarrow> js_error + 'a \<Rightarrow> js_error + 'a \<times> 'a" where
  "promise_all p q =
     (case p of Inl err \<Rightarrow> Inl err
      | Inr a \<Rightarrow> (case q of Inl err \<Rightarrow> Inl err | Inr b \<Rightarrow> Inr (a, b)))"

text \<open>
  \<^verbatim>\<open>getTranscriptStats\<close> resolves with the statistics or, from its \<^verbatim>\<open>catch\<close>, with null
  (\<open>None\<close>); it never rejects, and the line it prints in the \<^verbatim>\<open>catch\<close> is not
  modelled. Both queries are sent before either is awaited. The parameter defaults to
  \<^verbatim>\<open>'1h'\<close> when the caller leaves it out.
\<close>

definition getTranscriptStats ::
  "json_parser \<Rightarrow> env \<Rightarrow> logger \<Rightarrow> string option \<Rightarrow> world \<Rightarrow> transcript_stats option \<times> world"
where
  "getTranscriptStats JSON_parse e this timeRange_arg w =
     (let timeRange' = (case timeRange_arg of None \<Rightarrow> ''1h'' | Some r \<Rightarrow> r);
          (end', w0) = Date_now e w;
          start = window_start timeRange' end';
          (userLogs, w1) =
            searchTranscripts JSON_parse e (userQuery this) (Some start) (Some end') w0;
          (zaraLogs, w2) =
            searchTranscripts JSON_parse e (zaraQuery this) (Some start) (Some end') w1
      in case promise_all userLogs zaraLogs of
           Inl err \<Rightarrow> (None, w2)
         | Inr (u, z) \<Rightarrow>
             (case stats_object e timeRange' u z start end' of
                Inl err \<Rightarrow> (None, w2)
              | Inr stats \<Rightarrow> (Some stats, w2)))"

section \<open>Notions for stating properties\<close>

text \<open>
  The query endpoint answers with \<^verbatim>\<open>{ data: { result: [ { stream: {...}, values: [[ts,
  line], ...] }, ... ] } }\<close>. A stream is its labels and its values; \<open>query_result_json\<close>
  is the decoded response that carries the given streams.
\<close>

type_synonym loki_stream = "(string \<times> string) list \<times> (string \<times> string) list"

definition stream_json :: "loki_stream \<Rightarrow> json" where
  "stream_json s =
     JObject [(''stream'', JObject (map (\<lambda>(k, v). (k, JString v)) (fst s))),
              (''values'', JArray (map (\<lambda>(ts, line). JArray [JString ts, JString line]) (snd s)))]"

definition query_result_json :: "loki_stream list \<Rightarrow> json" where
  "query_result_json ss =
     JObject [(''status'', JString ''success''),
              (''data'', JObject [(''resultType'', JString ''streams''),
                                  (''result'', JArray (map stream_json ss))])]"

text \<open>Whether a decoded value has that shape.\<close>

fun is_string :: "json \<Rightarrow> bool" where
  "is_string (JString s) = True"
| "is_string v = False"

fun is_value_pair :: "json \<Rightarrow> bool" where
  "is_value_pair (JArray [JString ts, JString line]) = True"
| "is_value_pair v = False"

fun is_stream :: "json \<Rightarrow> bool" where
  "is_stream (JObject members) =
     (case (map_of members ''stream'', map_of members ''values'') of
        (Some (JObject labels), Some (JArray vs)) \<Rightarrow>
          list_all (\<lambda>(k, v). is_string v) labels \<and> list_all is_value_pair vs
      | _ \<Rightarrow> False)"
| "is_stream v = False"

fun is_query_result :: "json \<Rightarrow> bool" where
  "is_query_result (JObject members) =
     (case map_of members ''data'' of
        Some (JObject d) \<Rightarrow>
          (case map_of d ''result'' of
             Some (JArray ss) \<Rightarrow> list_all is_stream ss
           | _ \<Rightarrow> False)
      | _ \<Rightarrow> False)"
| "is_query_result v = False"

text \<open>The number of values in the first stream of a result, 0 when there is no stream.\<close>

definition first_stream_count :: "loki_stream list \<Rightarrow> int" where
  "first_stream_count ss = (case ss of [] \<Rightarrow> 0 | s # _ \<Rightarrow> int (length (snd s)))"

text \<open>The number of values in all the streams of a result.\<close>

definition all_streams_count :: "loki_stream list \<Rightarrow> int" where
  "all_streams_count ss = int (length (concat (map snd ss)))"

text \<open>What a log entry carries: the timestamps of its values and the labels of its streams.\<close>

definition entry_timestamps :: "log_entry \<Rightarrow> string list" where
  "entry_timestamps entry = concat (map (\<lambda>s. map fst (values' s)) (streams entry))"

definition entry_labels :: "log_entry \<Rightarrow> stream_labels list" where
  "entry_labels entry = map stream (streams entry)"

text \<open>\<^verbatim>\<open>transcript.metadata?.safetyFlags\<close>\<close>

definition event_safetyFlags :: "transcript \<Rightarrow> string list option" where
  "event_safetyFlags t = (case metadata t of None \<Rightarrow> None | Some m \<Rightarrow> safetyFlags m)"

text \<open>Whether the backend answers the last of these requests with a status from 200 to 299.\<close>

definition push_accepted :: "env \<Rightarrow> http_request list \<Rightarrow> bool" where
  "push_accepted e reqs =
     (case backend e reqs of Response statusCode data \<Rightarrow> 200 \<le> statusCode \<and> statusCode < 300
      | RequestError m \<Rightarrow> False)"

text \<open>The entries of the events of a batch that can be built, in order.\<close>

definition built_entries :: "env \<Rightarrow> logger \<Rightarrow> transcript list \<Rightarrow> log_entry list" where
  "built_entries e this ts =
     concat (map (\<lambda>t. case prepareLogEntry e this t of Inl err \<Rightarrow> [] | Inr entry \<Rightarrow> [entry]) ts)"

definition count_status :: "string \<Rightarrow> batch_result list \<Rightarrow> nat" where
  "count_status s results = length (filter (\<lambda>r. r_status r = s) results)"

text \<open>The element \<^verbatim>\<open>logTranscripts\<close> pushes to \<^verbatim>\<open>results\<close> for one event.\<close>

definition batch_result_of :: "transcript \<Rightarrow> js_error + unit \<Rightarrow> batch_result" where
  "batch_result_of t r =
     (case r of Inr u \<Rightarrow> \<lparr>r_transcript = t, r_status = ''success'', r_error = None\<rparr>
      | Inl err \<Rightarrow> \<lparr>r_transcript = t, r_status = ''error'', r_error = Some (message err)\<rparr>)"

text \<open>
  The bounds \<^verbatim>\<open>searchTranscripts\<close> settles on, and the path of the request it sends for
  them.
\<close>

definition query_bounds :: "env \<Rightarrow> int option \<Rightarrow> int option \<Rightarrow> world \<Rightarrow> int \<times> int" where
  "query_bounds e start_arg end_arg w =
     (let first_reading = date_now e (clock_reads w);
          start = (case start_arg of None \<Rightarrow> first_reading - 86400000
                   | Some s \<Rightarrow> if s = 0 then first_reading - 86400000 else s);
          next_reading =
            (case start_arg of None \<Rightarrow> date_now e (Suc (clock_reads w))
             | Some s \<Rightarrow> if s = 0 then date_now e (Suc (clock_reads w)) else first_reading);
          end' = (case end_arg of None \<Rightarrow> next_reading
                  | Some t \<Rightarrow> if t = 0 then next_reading else t)
      in (start, end'))"

definition query_path :: "env \<Rightarrow> string \<Rightarrow> int \<times> int \<Rightarrow> string" where
  "query_path e query bounds =
     ''/loki/api/v1/query_range?query='' @ encodeURIComponent query
       @ ''&start='' @ Number_toString (number_text e) (fst bounds * 1000000)
       @ ''&end='' @ Number_toString (number_text e) (snd bounds * 1000000)"

section \<open>Sample data\<close>

text \<open>A world with nothing sent and no logger yet, and a logger made with no options.\<close>

definition initial_world :: world where
  "initial_world =
     \<lparr>metrics_store = (\<lambda>r. \<lparr>transcriptEntriesTotal = 0, transcriptErrorsTotal = 0,
                               lastTranscriptTimestamp = None\<rparr>),
      next_ref = 0, sent = [], clock_reads = 0\<rparr>"

definition no_options :: logger_options where
  "no_options = \<lparr>o_lokiEndpoint = None, o_serviceName = None, o_enabled = None\<rparr>"

definition sample_logger :: logger where
  "sample_logger = fst (new_TranscriptLogger no_options initial_world)"

definition sample_world :: world where
  "sample_world = snd (new_TranscriptLogger no_options initial_world)"

text \<open>An event with no metadata and no context, at the given timestamp and turn.\<close>

definition plain_event :: "int \<Rightarrow> int \<Rightarrow> transcript" where
  "plain_event ts turn =
     \<lparr>sessionId = ''s1'', turnNumber = turn, timestamp = ts, messageType = ''user'',
      content = Some ''Hello, world!'', metadata = None, context' = None\<rparr>"

text \<open>An event with two safety flags.\<close>

definition flagged_event :: transcript where
  "flagged_event =
     \<lparr>sessionId = ''s1'', turnNumber = 2, timestamp = 1705312200000, messageType = ''zara'',
      content = None,
      metadata = Some \<lparr>safetyFlags = Some [''pii'', ''profanity''], vocabularyComplexity = None,
                        grammarComplexity = Some \<lparr>level = Some ''high''\<rparr>,
                        turnDuration = None, messageId = None\<rparr>,
      context' = Some \<lparr>conversationFlow = Some ''start'', userIntent = None\<rparr>\<rparr>"

text \<open>
  An environment from a backend and a clock. The numbers of the samples stay in the exact
  range, so that the two functions of the engine are never consulted; they are set to
  constants.
\<close>

definition sample_env :: "(http_request list \<Rightarrow> http_outcome) \<Rightarrow> (nat \<Rightarrow> int) \<Rightarrow> env" where
  "sample_env b c =
     \<lparr>backend = b, date_now = c, number_text = (\<lambda>n. []), plus = (\<lambda>x y. JNull)\<rparr>"

text \<open>
  A backend that answers 204 to every request but the second one it receives, which it
  rejects with 500; the clock advances by a millisecond with each reading.
\<close>

definition rejecting_second :: env where
  "rejecting_second =
     sample_env (\<lambda>reqs. if length reqs = 2 then Response 500 ''rejected'' else Response 204 [])
       (\<lambda>k. 1705312200000 + int k)"

text \<open>
  Three response bodies and what \<^verbatim>\<open>JSON.parse\<close> makes of them. \<open>sample_JSON_parse\<close>
  stands for \<^verbatim>\<open>JSON.parse\<close> on these three bodies and on text that is not JSON, for
  which its message stands for the one of the engine; it is used on nothing else.
\<close>

definition two_streams_body :: string where
  \<open>two_streams_body =
     ''{"status":"success","data":{"resultType":"streams","result":['' @
     ''{"stream":{},"values":[["1","a"]]},'' @
     ''{"stream":{},"values":[["2","b"],["3","c"]]}]}}''\<close>

definition one_stream_body :: string where
  \<open>one_stream_body =
     ''{"status":"success","data":{"resultType":"streams","result":['' @
     ''{"stream":{},"values":[["4","d"]]}]}}''\<close>

definition error_body :: string where
  \<open>error_body = ''{"status":"error","error":"parse error"}''\<close>

definition sample_JSON_parse :: json_parser where
  "sample_JSON_parse body =
     (if body = two_streams_body then
        Inr (query_result_json [([], [(''1'', ''a'')]), ([], [(''2'', ''b''), (''3'', ''c'')])])
      else if body = one_stream_body then
        Inr (query_result_json [([], [(''4'', ''d'')])])
      else if body = error_body then
        Inr (JObject [(''status'', JString ''error''), (''error'', JString ''parse error'')])
      else Inl ''Unexpected token'')"

text \<open>
  A backend that answers the first query with two streams and the second with one; one
  that gives every request the same outcome; one that answers the first query with one
  stream and the second with status 500 and an error object.
\<close>

definition two_then_one :: env where
  "two_then_one =
     sample_env (\<lambda>reqs. if length reqs = 1 then Response 200 two_streams_body
                         else Response 200 one_stream_body)
       (\<lambda>k. 1705312200000)"

definition answering :: "http_outcome \<Rightarrow> env" where
  "answering outcome = sample_env (\<lambda>reqs. outcome) (\<lambda>k. 1705312200000)"

definition second_refused :: env where
  "second_refused =
     sample_env (\<lambda>reqs. if length reqs = 1 then Response 200 one_stream_body
                         else Response 500 error_body)
       (\<lambda>k. 1705312200000)"

section \<open>Evaluation and sample facts\<close>

lemmas show_simps = show_int_def show_nat.simps digit_char_def

lemma Number_toString_exact: "exact_digits n \<Longrightarrow> Number_toString engine n = show_int n"
  by (simp add: Number_toString_def)

lemma exact_digits_safe: "\<bar>n\<bar> \<le> 9007199254740992 \<Longrightarrow> exact_digits n"
  by (simp add: exact_digits_def)

lemma exact_digits_million:
  assumes "\<bar>t\<bar> < 1000000000000000"
  shows "exact_digits (t * 1000000)"
proof -
  from assms have "\<bar>t * 1000000\<bar> < 1000000000000000000000"
    by (simp add: abs_mult)
  then show ?thesis
    by (simp add: exact_digits_def)
qed

lemma sample_logger_eq:
  "sample_logger = \<lparr>lokiEndpoint = ''http://localhost:3100'', serviceName = ''zaralive-transcripts'',
     enabled = True, metrics_ref = 0\<rparr>"
  by (simp add: sample_logger_def new_TranscriptLogger_def no_options_def initial_world_def
      or_string_def Let_def)

lemma sample_world_eq:
  "sample_world = \<lparr>metrics_store = (\<lambda>r. \<lparr>transcriptEntriesTotal = 0, transcriptErrorsTotal = 0,
                               lastTranscriptTimestamp = None\<rparr>), next_ref = 1, sent = [],
                    clock_reads = 0\<rparr>"
  by (simp add: sample_world_def new_TranscriptLogger_def no_options_def initial_world_def
      Let_def fun_eq_iff)

lemma plain_event_builds:
  "\<exists>entry. prepareLogEntry e this (plain_event 1705312200000 n) = Inr entry"
  by (simp add: prepareLogEntry_def toISOString_def plain_event_def Let_def)

lemma count_status_map:
  "count_status s results = length (filter (\<lambda>x. x = s) (map r_status results))"
  by (simp add: count_status_def filter_map comp_def)

section \<open>The Record Builder\<close>

text \<open>
  Claim C1, as the code has it. The timestamp of an event is a millisecond instant (it is
  the argument of \<^verbatim>\<open>new Date\<close>), and for a timestamp below \<open>10\<^sup>1\<^sup>5\<close> in magnitude the
  entry carries the decimal text of that timestamp multiplied by \<open>10\<^sup>6\<close>, exactly:
  milliseconds become nanoseconds. From \<open>10\<^sup>1\<^sup>5\<close> on the product is printed in exponent
  notation.
\<close>

theorem prepareLogEntry_timestamp_millis:
  assumes "\<bar>timestamp t\<bar> < 1000000000000000"
  shows "map_sum id entry_timestamps (prepareLogEntry e this t) =
           Inr [show_int (timestamp t * 1000000)]"
proof -
  from assms have "\<bar>timestamp t\<bar> \<le> 8640000000000000"
    by simp
  moreover from assms
  have "Number_toString (number_text e) (timestamp t * 1000000) = show_int (timestamp t * 1000000)"
    by (simp add: Number_toString_exact exact_digits_million)
  ultimately show ?thesis
    by (simp add: prepareLogEntry_def toISOString_def entry_timestamps_def Let_def)
qed

theorem prepareLogEntry_timestamp_millis_witness:
  "\<bar>timestamp (plain_event 1705312200000 1)\<bar> < 1000000000000000 \<and>
   map_sum id entry_timestamps
       (prepareLogEntry rejecting_second sample_logger (plain_event 1705312200000 1))
     = Inr [''1705312200000000000'']"
  using prepareLogEntry_timestamp_millis [of "plain_event 1705312200000 1" rejecting_second sample_logger]
  by (simp add: plain_event_def show_simps)

text \<open>
  The claim as written takes the timestamp for seconds and multiplies by \<open>10\<^sup>9\<close>: for
  the timestamp 1705312200 the entry carries 1705312200000000, not 1705312200000000000.
\<close>

theorem prepareLogEntry_seconds_counterexample:
  "map_sum id entry_timestamps
       (prepareLogEntry rejecting_second sample_logger (plain_event 1705312200 1))
     = Inr [''1705312200000000''] \<and>
   [''1705312200000000''] \<noteq> [show_int (1705312200 * 10 ^ 9)] \<and>
   show_int (1705312200 * 10 ^ 9) = ''1705312200000000000''"
  by (simp add: prepareLogEntry_def toISOString_def entry_timestamps_def Let_def
      plain_event_def Number_toString_def exact_digits_def show_simps)

text \<open>
  Claim C8. For an event whose timestamp is a time value the build succeeds; the label
  \<open>safety_flags\<close> is \<open>none\<close> when the list of safety flags is absent or empty and
  otherwise the flags joined by commas in their order; and with no metadata and no context
  the labels for the two complexities, the conversation flow and the user intent are
  \<open>unknown\<close> and \<open>safety_flags\<close> is \<open>none\<close>.
\<close>

theorem prepareLogEntry_default_labels:
  assumes "\<bar>timestamp t\<bar> \<le> 8640000000000000"
  shows "map_sum id (map safety_flags \<circ> entry_labels) (prepareLogEntry e this t) =
           Inr [case event_safetyFlags t of
                  None \<Rightarrow> ''none'' | Some [] \<Rightarrow> ''none'' | Some (f # fs) \<Rightarrow> join '','' (f # fs)]
         \<and> (metadata t = None \<and> context' t = None \<longrightarrow>
              map_sum id entry_labels (prepareLogEntry e this t) =
                Inr [\<lparr>job = serviceName this,
                      session_id = sessionId t,
                      message_type = messageType t,
                      turn_number = Number_toString (number_text e) (turnNumber t),
                      content_length =
                        Number_toString (number_text e)
                          (int (case content t of None \<Rightarrow> 0 | Some c \<Rightarrow> length c)),
                      safety_flags = ''none'',
                      vocabulary_complexity = ''unknown'',
                      grammar_complexity = ''unknown'',
                      conversation_flow = ''unknown'',
                      user_intent = ''unknown''\<rparr>])"
  using assms
  by (simp add: prepareLogEntry_def toISOString_def entry_labels_def event_safetyFlags_def
      or_string_def Let_def split: option.splits list.splits)

theorem prepareLogEntry_default_labels_witness:
  "\<bar>timestamp (plain_event 1705312200000 1)\<bar> \<le> 8640000000000000 \<and>
   metadata (plain_event 1705312200000 1) = None \<and> context' (plain_event 1705312200000 1) = None \<and>
   map_sum id entry_labels
       (prepareLogEntry rejecting_second sample_logger (plain_event 1705312200000 1)) =
     Inr [\<lparr>job = ''zaralive-transcripts'', session_id = ''s1'', message_type = ''user'',
           turn_number = ''1'', content_length = ''13'', safety_flags = ''none'',
           vocabulary_complexity = ''unknown'', grammar_complexity = ''unknown'',
           conversation_flow = ''unknown'', user_intent = ''unknown''\<rparr>] \<and>
   \<bar>timestamp flagged_event\<bar> \<le> 8640000000000000 \<and>
   map_sum id (map safety_flags \<circ> entry_labels)
       (prepareLogEntry rejecting_second sample_logger flagged_event) =
     Inr [''pii,profanity'']"
  using prepareLogEntry_default_labels [of "plain_event 1705312200000 1" rejecting_second sample_logger]
    prepareLogEntry_default_labels [of flagged_event rejecting_second sample_logger]
  by (simp add: plain_event_def flagged_event_def event_safetyFlags_def show_simps
      Number_toString_def exact_digits_def
      sample_logger_def new_TranscriptLogger_def no_options_def initial_world_def or_string_def
      Let_def)

lemma rejecting_second_backend:
  "backend rejecting_second reqs =
     (if length reqs = 2 then Response 500 ''rejected'' else Response 204 [])"
  by (simp add: rejecting_second_def sample_env_def)

lemma rejecting_second_clock: "date_now rejecting_second k = 1705312200000 + int k"
  by (simp add: rejecting_second_def sample_env_def)

section \<open>The Ingestion Client\<close>

lemma logTranscripts_loop_acc:
  "logTranscripts_loop e this ts acc w =
     (acc @ fst (logTranscripts_loop e this ts [] w), snd (logTranscripts_loop e this ts [] w))"
proof (induction ts arbitrary: acc w)
  case Nil
  show ?case by simp
next
  case (Cons t ts)
  obtain r w1 where step: "logTranscript e this t w = (r, w1)"
    by (cases "logTranscript e this t w")
  show ?case
  proof (cases r)
    case (Inl err)
    with step Cons.IH [of "acc @ [\<lparr>r_transcript = t, r_status = ''error'', r_error = Some (message err)\<rparr>]" w1]
      Cons.IH [of "[\<lparr>r_transcript = t, r_status = ''error'', r_error = Some (message err)\<rparr>]" w1]
    show ?thesis by simp
  next
    case (Inr u)
    with step Cons.IH [of "acc @ [\<lparr>r_transcript = t, r_status = ''success'', r_error = None\<rparr>]" w1]
      Cons.IH [of "[\<lparr>r_transcript = t, r_status = ''success'', r_error = None\<rparr>]" w1]
    show ?thesis by simp
  qed
qed

lemma logTranscripts_Nil: "logTranscripts e this [] w = ([], w)"
  by (simp add: logTranscripts_def)

lemma logTranscripts_Cons:
  "logTranscripts e this (t # ts) w =
     (batch_result_of t (fst (logTranscript e this t w))
        # fst (logTranscripts e this ts (snd (logTranscript e this t w))),
      snd (logTranscripts e this ts (snd (logTranscript e this t w))))"
proof -
  obtain r w1 where step: "logTranscript e this t w = (r, w1)"
    by (cases "logTranscript e this t w")
  show ?thesis
  proof (cases r)
    case (Inl err)
    with step logTranscripts_loop_acc
      [of e this ts "[\<lparr>r_transcript = t, r_status = ''error'', r_error = Some (message err)\<rparr>]" w1]
    show ?thesis by (simp add: logTranscripts_def batch_result_of_def)
  next
    case (Inr u)
    with step logTranscripts_loop_acc
      [of e this ts "[\<lparr>r_transcript = t, r_status = ''success'', r_error = None\<rparr>]" w1]
    show ?thesis by (simp add: logTranscripts_def batch_result_of_def)
  qed
qed

text \<open>One push on an enabled logger, in terms of what was sent and what the backend said.\<close>

lemma logTranscript_enabled_sent:
  "enabled this \<Longrightarrow>
   sent (snd (logTranscript e this t w)) = sent w @ map PushRequest (built_entries e this [t])"
  by (simp add: logTranscript_def sendToLoki_def updateMetrics_def Date_now_def built_entries_def Let_def
      split: sum.splits http_outcome.splits)

lemma logTranscript_enabled_status:
  "enabled this \<Longrightarrow>
   r_status (batch_result_of t (fst (logTranscript e this t w))) =
     (if (case prepareLogEntry e this t of Inl err \<Rightarrow> False
          | Inr entry \<Rightarrow> push_accepted e (sent w @ [PushRequest entry]))
      then ''success'' else ''error'')"
  by (simp add: logTranscript_def sendToLoki_def batch_result_of_def push_accepted_def Let_def
      split: sum.splits http_outcome.splits)

lemma logTranscript_enabled_counters:
  assumes "enabled this"
  shows "transcript_entries_total (getMetrics this (snd (logTranscript e this t w))) =
     transcript_entries_total (getMetrics this w)
       + count_status ''success'' [batch_result_of t (fst (logTranscript e this t w))] \<and>
   transcript_errors_total (getMetrics this (snd (logTranscript e this t w))) =
     transcript_errors_total (getMetrics this w)
       + count_status ''error'' [batch_result_of t (fst (logTranscript e this t w))]"
proof (cases "prepareLogEntry e this t")
  case (Inl err)
  with assms show ?thesis
    by (simp add: logTranscript_def updateMetrics_def Date_now_def getMetrics_def batch_result_of_def
        count_status_def Let_def)
next
  case (Inr entry)
  show ?thesis
  proof (cases "backend e (sent w @ [PushRequest entry])")
    case (Response statusCode data)
    show ?thesis
    proof (cases "200 \<le> statusCode \<and> statusCode < 300")
      case True
      with assms Inr Response show ?thesis
        by (simp add: logTranscript_def sendToLoki_def updateMetrics_def Date_now_def getMetrics_def
            batch_result_of_def count_status_def Let_def)
    next
      case False
      with assms Inr Response show ?thesis
        by (simp add: logTranscript_def sendToLoki_def updateMetrics_def Date_now_def getMetrics_def
            batch_result_of_def count_status_def Let_def)
    qed
  next
    case (RequestError m)
    with assms Inr show ?thesis
      by (simp add: logTranscript_def sendToLoki_def updateMetrics_def Date_now_def getMetrics_def
          batch_result_of_def count_status_def Let_def)
  qed
qed

lemma r_transcript_batch_result_of [simp]: "r_transcript (batch_result_of t r) = t"
  by (simp add: batch_result_of_def split: sum.splits)

lemma logTranscripts_transcripts:
  "map r_transcript (fst (logTranscripts e this ts w)) = ts"
  by (induction ts arbitrary: w) (simp_all add: logTranscripts_Nil logTranscripts_Cons)

lemma logTranscripts_sent:
  "enabled this \<Longrightarrow>
   sent (snd (logTranscripts e this ts w)) = sent w @ map PushRequest (built_entries e this ts)"
proof (induction ts arbitrary: w)
  case Nil
  show ?case by (simp add: logTranscripts_Nil built_entries_def)
next
  case (Cons t ts)
  have "built_entries e this (t # ts) = built_entries e this [t] @ built_entries e this ts"
    by (simp add: built_entries_def)
  with Cons logTranscript_enabled_sent [where this = this and e = e and t = t and w = w] show ?case
    by (simp add: logTranscripts_Cons)
qed

lemma logTranscripts_counters:
  "enabled this \<Longrightarrow>
   transcript_entries_total (getMetrics this (snd (logTranscripts e this ts w))) =
     transcript_entries_total (getMetrics this w)
       + count_status ''success'' (fst (logTranscripts e this ts w)) \<and>
   transcript_errors_total (getMetrics this (snd (logTranscripts e this ts w))) =
     transcript_errors_total (getMetrics this w)
       + count_status ''error'' (fst (logTranscripts e this ts w))"
proof (induction ts arbitrary: w)
  case Nil
  show ?case by (simp add: logTranscripts_Nil count_status_def)
next
  case (Cons t ts)
  let ?r = "batch_result_of t (fst (logTranscript e this t w))"
  let ?w1 = "snd (logTranscript e this t w)"
  let ?rs = "fst (logTranscripts e this ts ?w1)"
  have results: "fst (logTranscripts e this (t # ts) w) = ?r # ?rs"
    and world: "snd (logTranscripts e this (t # ts) w) = snd (logTranscripts e this ts ?w1)"
    by (simp_all add: logTranscripts_Cons)
  have split_count: "count_status s (?r # ?rs) = count_status s [?r] + count_status s ?rs" for s
    by (simp add: count_status_def)
  from Cons.IH [OF Cons.prems, of ?w1] logTranscript_enabled_counters [OF Cons.prems, of e t w]
  show ?case
    unfolding results world split_count by linarith
qed

lemma logTranscripts_status:
  "enabled this \<Longrightarrow> i < length ts \<Longrightarrow>
   r_status (fst (logTranscripts e this ts w) ! i) =
     (if (case prepareLogEntry e this (ts ! i) of Inl err \<Rightarrow> False
          | Inr entry \<Rightarrow>
              push_accepted e (sent w @ map PushRequest (built_entries e this (take (Suc i) ts))))
      then ''success'' else ''error'')"
proof (induction ts arbitrary: w i)
  case Nil
  then show ?case by simp
next
  case (Cons t ts)
  show ?case
  proof (cases i)
    case 0
    with logTranscript_enabled_status [OF Cons.prems(1), where t = t and e = e and w = w] show ?thesis
      by (simp add: logTranscripts_Cons built_entries_def split: sum.splits)
  next
    case (Suc j)
    with Cons.prems have j: "j < length ts" by simp
    have built: "built_entries e this (take (Suc i) (t # ts)) =
        built_entries e this [t] @ built_entries e this (take (Suc j) ts)"
      using Suc by (simp add: built_entries_def)
    have nth: "fst (logTranscripts e this (t # ts) w) ! i =
        fst (logTranscripts e this ts (snd (logTranscript e this t w))) ! j"
      using Suc by (simp add: logTranscripts_Cons)
    have reqs: "sent (snd (logTranscript e this t w)) @
          map PushRequest (built_entries e this (take (Suc j) ts)) =
        sent w @ map PushRequest (built_entries e this (take (Suc i) (t # ts)))"
      using logTranscript_enabled_sent [OF Cons.prems(1), where e = e and t = t and w = w] built by simp
    have elem: "(t # ts) ! i = ts ! j"
      using Suc by simp
    show ?thesis
      using Cons.IH [OF Cons.prems(1) j, of "snd (logTranscript e this t w)"]
      unfolding nth reqs elem .
  qed
qed

text \<open>
  Claim C5. One push of a record on an enabled logger sends one request. When the backend
  answers with a status from 200 to 299 the push resolves, the count of entries grows by
  one, the count of errors stays and the last timestamp becomes the reading of the clock;
  for any other status, and when the request fails, the count of errors grows by one,
  the rest of the counters stays, and the push rejects with an error whose message carries
  the status and the body, or the message of the failed request.
\<close>

theorem logTranscript_classifies:
  assumes "enabled this" and "prepareLogEntry e this t = Inr entry"
  shows "let reqs = sent w @ [PushRequest entry];
             (r, w') = logTranscript e this t w;
             before = getMetrics this w;
             after = getMetrics this w'
         in sent w' = reqs \<and>
            (case backend e reqs of
               Response statusCode data \<Rightarrow>
                 if 200 \<le> statusCode \<and> statusCode < 300 then
                   r = Inr () \<and>
                   after = \<lparr>transcript_entries_total = transcript_entries_total before + 1,
                            transcript_errors_total = transcript_errors_total before,
                            last_transcript_timestamp = Some (date_now e (clock_reads w))\<rparr>
                 else
                   r = Inl (Error (''Loki responded with status '' @ show_nat statusCode @ '': '' @ data)) \<and>
                   after = before\<lparr>transcript_errors_total := transcript_errors_total before + 1\<rparr>
             | RequestError m \<Rightarrow>
                 r = Inl (Error (''Failed to send to Loki: '' @ m)) \<and>
                 after = before\<lparr>transcript_errors_total := transcript_errors_total before + 1\<rparr>)"
  using assms
  by (simp add: logTranscript_def sendToLoki_def updateMetrics_def Date_now_def getMetrics_def Let_def
      split: http_outcome.splits)

theorem logTranscript_classifies_witness:
  "enabled sample_logger \<and>
   fst (logTranscript rejecting_second sample_logger (plain_event 1705312200000 1) sample_world) = Inr () \<and>
   getMetrics sample_logger
     (snd (logTranscript rejecting_second sample_logger (plain_event 1705312200000 1) sample_world)) =
     \<lparr>transcript_entries_total = 1, transcript_errors_total = 0,
      last_transcript_timestamp = Some 1705312200000\<rparr> \<and>
   fst (logTranscript rejecting_second sample_logger (plain_event 1705312200000 2)
         (snd (logTranscript rejecting_second sample_logger (plain_event 1705312200000 1) sample_world))) =
     Inl (Error ''Loki responded with status 500: rejected'') \<and>
   getMetrics sample_logger
     (snd (logTranscript rejecting_second sample_logger (plain_event 1705312200000 2)
         (snd (logTranscript rejecting_second sample_logger (plain_event 1705312200000 1) sample_world)))) =
     \<lparr>transcript_entries_total = 1, transcript_errors_total = 1,
      last_transcript_timestamp = Some 1705312200000\<rparr>"
proof -
  let ?w1 = "snd (logTranscript rejecting_second sample_logger (plain_event 1705312200000 1) sample_world)"
  have en: "enabled sample_logger"
    by (simp add: sample_logger_eq)
  obtain entry1 where b1: "prepareLogEntry rejecting_second sample_logger (plain_event 1705312200000 1) = Inr entry1"
    using plain_event_builds by blast
  obtain entry2 where b2: "prepareLogEntry rejecting_second sample_logger (plain_event 1705312200000 2) = Inr entry2"
    using plain_event_builds by blast
  have m0: "getMetrics sample_logger sample_world =
      \<lparr>transcript_entries_total = 0, transcript_errors_total = 0, last_transcript_timestamp = None\<rparr>"
    by (simp add: getMetrics_def sample_world_eq)
  have s0: "sent sample_world = []"
    by (simp add: sample_world_eq)
  have c0: "clock_reads sample_world = 0"
    by (simp add: sample_world_eq)
  have first: "sent ?w1 = [PushRequest entry1] \<and>
      fst (logTranscript rejecting_second sample_logger (plain_event 1705312200000 1) sample_world) = Inr () \<and>
      getMetrics sample_logger ?w1 =
        \<lparr>transcript_entries_total = 1, transcript_errors_total = 0,
         last_transcript_timestamp = Some 1705312200000\<rparr>"
    using logTranscript_classifies [OF en b1, of sample_world]
    by (simp add: Let_def case_prod_beta m0 s0 c0 rejecting_second_backend rejecting_second_clock)
  have second: "fst (logTranscript rejecting_second sample_logger (plain_event 1705312200000 2) ?w1) =
        Inl (Error ''Loki responded with status 500: rejected'') \<and>
      getMetrics sample_logger
        (snd (logTranscript rejecting_second sample_logger (plain_event 1705312200000 2) ?w1)) =
        \<lparr>transcript_entries_total = 1, transcript_errors_total = 1,
         last_transcript_timestamp = Some 1705312200000\<rparr>"
    using logTranscript_classifies [OF en b2, of ?w1] first
    by (simp add: Let_def case_prod_beta rejecting_second_backend rejecting_second_clock show_nat.simps digit_char_def)
  from en first second show ?thesis by simp
qed

text \<open>
  Claim C4. A batch on an enabled logger gives one result per event, in the order of the
  events; every event whose entry can be built is sent, whatever happened to the events
  before it; the result of an event is \<open>success\<close> exactly when its entry was built and
  the backend accepted the request that carried it; and the counters grow by the number of
  successes and of errors among the results. The witness is a batch of three whose second
  request the backend rejects.
\<close>

theorem logTranscripts_isolates_failures:
  assumes "enabled this"
  shows "let results = fst (logTranscripts e this ts w);
             w' = snd (logTranscripts e this ts w)
         in map r_transcript results = ts \<and>
            sent w' = sent w @ map PushRequest (built_entries e this ts) \<and>
            (\<forall>i<length ts.
               r_status (results ! i) =
                 (if (case prepareLogEntry e this (ts ! i) of Inl err \<Rightarrow> False
                      | Inr entry \<Rightarrow>
                          push_accepted e
                            (sent w @ map PushRequest (built_entries e this (take (Suc i) ts))))
                  then ''success'' else ''error'')) \<and>
            transcript_entries_total (getMetrics this w') =
              transcript_entries_total (getMetrics this w) + count_status ''success'' results \<and>
            transcript_errors_total (getMetrics this w') =
              transcript_errors_total (getMetrics this w) + count_status ''error'' results"
  using assms logTranscripts_transcripts [of e this ts w]
    logTranscripts_sent [where this = this and e = e and ts = ts and w = w]
    logTranscripts_counters [where this = this and e = e and ts = ts and w = w]
    logTranscripts_status [where this = this and e = e and ts = ts and w = w]
  by (simp add: Let_def)

theorem logTranscripts_isolates_failures_witness:
  "enabled sample_logger \<and>
   (let batch = [plain_event 1705312200000 1, plain_event 1705312200000 2,
                 plain_event 1705312200000 3];
        results = fst (logTranscripts rejecting_second sample_logger batch sample_world);
        w' = snd (logTranscripts rejecting_second sample_logger batch sample_world)
    in map r_transcript results = batch \<and>
       map r_status results = [''success'', ''error'', ''success''] \<and>
       map r_error results = [None, Some ''Loki responded with status 500: rejected'', None] \<and>
       length (sent w') = 3 \<and>
       transcript_entries_total (getMetrics sample_logger sample_world) = 0 \<and>
       transcript_errors_total (getMetrics sample_logger sample_world) = 0 \<and>
       transcript_entries_total (getMetrics sample_logger w') = 2 \<and>
       transcript_errors_total (getMetrics sample_logger w') = 1)"
proof -
  let ?batch = "[plain_event 1705312200000 1, plain_event 1705312200000 2,
                 plain_event 1705312200000 3]"
  have en: "enabled sample_logger"
    by (simp add: sample_logger_eq)
  obtain e1 where b1: "prepareLogEntry rejecting_second sample_logger (plain_event 1705312200000 1) = Inr e1"
    using plain_event_builds by blast
  obtain e2 where b2: "prepareLogEntry rejecting_second sample_logger (plain_event 1705312200000 2) = Inr e2"
    using plain_event_builds by blast
  obtain e3 where b3: "prepareLogEntry rejecting_second sample_logger (plain_event 1705312200000 3) = Inr e3"
    using plain_event_builds by blast
  have run: "map r_status (fst (logTranscripts rejecting_second sample_logger ?batch sample_world)) =
        [''success'', ''error'', ''success''] \<and>
      map r_error (fst (logTranscripts rejecting_second sample_logger ?batch sample_world)) =
        [None, Some ''Loki responded with status 500: rejected'', None]"
    by (simp add: logTranscripts_Cons logTranscripts_Nil logTranscript_def sendToLoki_def
        updateMetrics_def Date_now_def batch_result_of_def b1 b2 b3 en rejecting_second_backend rejecting_second_clock sample_world_eq
        show_nat.simps digit_char_def Let_def)
  have counts: "count_status ''success'' (fst (logTranscripts rejecting_second sample_logger ?batch sample_world)) = 2"
    "count_status ''error'' (fst (logTranscripts rejecting_second sample_logger ?batch sample_world)) = 1"
    using run by (simp_all add: count_status_map)
  have start: "getMetrics sample_logger sample_world =
      \<lparr>transcript_entries_total = 0, transcript_errors_total = 0, last_transcript_timestamp = None\<rparr>"
    by (simp add: getMetrics_def sample_world_eq)
  from logTranscripts_isolates_failures [OF en, of rejecting_second ?batch sample_world]
  show ?thesis
    using en run counts start
    by (simp add: Let_def built_entries_def b1 b2 b3 sample_world_eq)
qed

lemma logTranscripts_disabled:
  "\<not> enabled this \<Longrightarrow>
   logTranscripts e this ts w =
     (map (\<lambda>t. \<lparr>r_transcript = t, r_status = ''success'', r_error = None\<rparr>) ts, w)"
  by (induction ts arbitrary: w)
     (simp_all add: logTranscripts_Nil logTranscripts_Cons logTranscript_def batch_result_of_def)

text \<open>
  Claim C9. A logger constructed with the option \<open>enabled\<close> set to false resolves every
  push, single or in a batch, and leaves the world as it was: no request is sent and no
  counter moves.
\<close>

theorem disabled_logger_push_no_op:
  "let this = fst (new_TranscriptLogger (options\<lparr>o_enabled := Some False\<rparr>) w0) in
     logTranscript e this t w = (Inr (), w) \<and>
     logTranscripts e this ts w =
       (map (\<lambda>t. \<lparr>r_transcript = t, r_status = ''success'', r_error = None\<rparr>) ts, w)"
proof -
  have "\<not> enabled (fst (new_TranscriptLogger (options\<lparr>o_enabled := Some False\<rparr>) w0))"
    by (simp add: new_TranscriptLogger_def Let_def)
  then show ?thesis
    by (simp add: logTranscripts_disabled logTranscript_def Let_def)
qed

lemma updateMetrics_other:
  "metrics_ref a \<noteq> metrics_ref b \<Longrightarrow>
   getMetrics b (updateMetrics e a t status w) = getMetrics b w"
  by (simp add: updateMetrics_def Date_now_def getMetrics_def Let_def)

lemma sendToLoki_metrics:
  "getMetrics b (snd (sendToLoki e entry w)) = getMetrics b w"
  by (simp add: sendToLoki_def getMetrics_def Let_def split: http_outcome.splits)

lemma logTranscript_other_metrics:
  assumes "metrics_ref a \<noteq> metrics_ref b"
  shows "getMetrics b (snd (logTranscript e a t w)) = getMetrics b w"
proof (cases "enabled a")
  case False
  then show ?thesis by (simp add: logTranscript_def)
next
  case True
  show ?thesis
  proof (cases "prepareLogEntry e a t")
    case (Inl err)
    with True assms show ?thesis
      by (simp add: logTranscript_def updateMetrics_other)
  next
    case (Inr entry)
    obtain r w1 where s: "sendToLoki e entry w = (r, w1)"
      by (cases "sendToLoki e entry w")
    with sendToLoki_metrics [of b e entry w] have "getMetrics b w1 = getMetrics b w"
      by simp
    with True Inr s assms show ?thesis
      by (cases r) (simp_all add: logTranscript_def updateMetrics_other)
  qed
qed

lemma logTranscripts_other_metrics:
  "metrics_ref a \<noteq> metrics_ref b \<Longrightarrow>
   getMetrics b (snd (logTranscripts e a ts w)) = getMetrics b w"
  by (induction ts arbitrary: w)
     (simp_all add: logTranscripts_Nil logTranscripts_Cons logTranscript_other_metrics)

text \<open>
  Claim C10. The counters belong to the logger: a logger constructed in a world where
  another one exists already gets a metrics object of its own, and in any later world a
  batch of pushes on either of the two leaves the snapshot of the other as it was.
\<close>

theorem counters_per_instance:
  assumes "metrics_ref a < next_ref w0"
  shows "let b = fst (new_TranscriptLogger options w0) in
           getMetrics b (snd (logTranscripts e a ts w)) = getMetrics b w \<and>
           getMetrics a (snd (logTranscripts e b ts w)) = getMetrics a w"
proof -
  have "metrics_ref (fst (new_TranscriptLogger options w0)) = next_ref w0"
    by (simp add: new_TranscriptLogger_def Let_def)
  with assms have "metrics_ref a \<noteq> metrics_ref (fst (new_TranscriptLogger options w0))"
    by simp
  then show ?thesis
    using logTranscripts_other_metrics [of a "fst (new_TranscriptLogger options w0)" e ts w]
      logTranscripts_other_metrics [of "fst (new_TranscriptLogger options w0)" a e ts w]
    by (simp add: Let_def)
qed


theorem counters_per_instance_witness:
  "metrics_ref sample_logger < next_ref sample_world \<and>
   (let b = fst (new_TranscriptLogger no_options sample_world);
        w = snd (new_TranscriptLogger no_options sample_world);
        batch = [plain_event 1705312200000 1, plain_event 1705312200000 2,
                 plain_event 1705312200000 3];
        w' = snd (logTranscripts rejecting_second sample_logger batch w)
    in getMetrics b w =
         \<lparr>transcript_entries_total = 0, transcript_errors_total = 0,
          last_transcript_timestamp = None\<rparr> \<and>
       getMetrics b w' = getMetrics b w \<and>
       getMetrics sample_logger w' =
         \<lparr>transcript_entries_total = 2, transcript_errors_total = 1,
          last_transcript_timestamp = Some 1705312200001\<rparr>)"
proof -
  let ?b = "fst (new_TranscriptLogger no_options sample_world)"
  let ?w = "snd (new_TranscriptLogger no_options sample_world)"
  let ?batch = "[plain_event 1705312200000 1, plain_event 1705312200000 2,
                 plain_event 1705312200000 3]"
  have older: "metrics_ref sample_logger < next_ref sample_world"
    by (simp add: sample_logger_eq sample_world_eq)
  have fresh: "getMetrics ?b ?w =
      \<lparr>transcript_entries_total = 0, transcript_errors_total = 0,
       last_transcript_timestamp = None\<rparr>"
    by (simp add: getMetrics_def new_TranscriptLogger_def Let_def)
  obtain e1 where b1: "prepareLogEntry rejecting_second sample_logger (plain_event 1705312200000 1) = Inr e1"
    using plain_event_builds by blast
  obtain e2 where b2: "prepareLogEntry rejecting_second sample_logger (plain_event 1705312200000 2) = Inr e2"
    using plain_event_builds by blast
  obtain e3 where b3: "prepareLogEntry rejecting_second sample_logger (plain_event 1705312200000 3) = Inr e3"
    using plain_event_builds by blast
  have en: "enabled sample_logger" and ref: "metrics_ref sample_logger = 0"
    by (simp_all add: sample_logger_eq)
  have mine: "getMetrics sample_logger (snd (logTranscripts rejecting_second sample_logger ?batch ?w)) =
      \<lparr>transcript_entries_total = 2, transcript_errors_total = 1,
       last_transcript_timestamp = Some 1705312200001\<rparr>"
    by (simp add: logTranscripts_Cons logTranscripts_Nil logTranscript_def sendToLoki_def
        updateMetrics_def Date_now_def getMetrics_def b1 b2 b3 en ref rejecting_second_backend rejecting_second_clock sample_world_eq
        new_TranscriptLogger_def Let_def)
  from counters_per_instance [OF older, of no_options rejecting_second ?batch ?w]
  show ?thesis
    using older fresh mine by (simp add: Let_def)
qed

section \<open>The Query Client\<close>

lemma searchTranscripts_sent:
  "sent (snd (searchTranscripts JSON_parse e query start_arg end_arg w)) =
     sent w @ [QueryRequest (query_path e query (query_bounds e start_arg end_arg w))]"
  by (simp add: searchTranscripts_def bound_or_def Date_now_def query_path_def query_bounds_def
      Let_def case_prod_beta split: option.splits http_outcome.splits sum.splits)

lemma searchTranscripts_result:
  "fst (searchTranscripts JSON_parse e query start_arg end_arg w) =
     (case backend e (sent w @ [QueryRequest (query_path e query (query_bounds e start_arg end_arg w))]) of
        Response statusCode data \<Rightarrow>
          (case JSON_parse data of
             Inr response \<Rightarrow> Inr response
           | Inl m \<Rightarrow> Inl (Error (''Failed to parse Loki response: '' @ m)))
      | RequestError m \<Rightarrow> Inl (Error (''Failed to query Loki: '' @ m)))"
  by (simp add: searchTranscripts_def bound_or_def Date_now_def query_path_def query_bounds_def
      Let_def case_prod_beta split: option.splits http_outcome.splits sum.splits)


lemma answering_backend: "backend (answering outcome) reqs = outcome"
  by (simp add: answering_def sample_env_def)

text \<open>
  Claim C6, as the code has it. A bound that is left out (or is 0) is replaced by a reading
  of the clock: the start by the first reading minus 24 hours, the end by the reading
  after it (the first one when the start was given). The clock, the defaults and the bounds
  of the caller are in milliseconds, and for bounds below \<open>10\<^sup>1\<^sup>5\<close> in magnitude the
  request carries the decimal text of each bound multiplied by \<open>10\<^sup>6\<close>: nanoseconds.
\<close>

theorem searchTranscripts_window_millis:
  "let first_reading = date_now e (clock_reads w);
       start = (case start_arg of None \<Rightarrow> first_reading - 86400000
                | Some s \<Rightarrow> if s = 0 then first_reading - 86400000 else s);
       next_reading =
         (case start_arg of None \<Rightarrow> date_now e (Suc (clock_reads w))
          | Some s \<Rightarrow> if s = 0 then date_now e (Suc (clock_reads w)) else first_reading);
       end' = (case end_arg of None \<Rightarrow> next_reading
               | Some t \<Rightarrow> if t = 0 then next_reading else t)
   in \<bar>start\<bar> < 1000000000000000 \<and> \<bar>end'\<bar> < 1000000000000000 \<longrightarrow>
      sent (snd (searchTranscripts JSON_parse e query start_arg end_arg w)) =
        sent w @ [QueryRequest (''/loki/api/v1/query_range?query='' @ encodeURIComponent query
                    @ ''&start='' @ show_int (start * 1000000)
                    @ ''&end='' @ show_int (end' * 1000000))]"
  by (simp add: searchTranscripts_sent query_path_def query_bounds_def Let_def
      Number_toString_exact exact_digits_million)

theorem searchTranscripts_window_millis_witness:
  "sent (snd (searchTranscripts sample_JSON_parse rejecting_second (userQuery sample_logger)
                None None initial_world)) =
     [QueryRequest (''/loki/api/v1/query_range?query='' @ encodeURIComponent (userQuery sample_logger)
                      @ ''&start=1705225800000000000&end=1705312200001000000'')] \<and>
   sent (snd (searchTranscripts sample_JSON_parse rejecting_second (userQuery sample_logger)
                (Some 1705308600000) (Some 1705312200000) initial_world)) =
     [QueryRequest (''/loki/api/v1/query_range?query='' @ encodeURIComponent (userQuery sample_logger)
                      @ ''&start=1705308600000000000&end=1705312200000000000'')]"
  using searchTranscripts_window_millis [of rejecting_second initial_world
      None None sample_JSON_parse "userQuery sample_logger"]
    searchTranscripts_window_millis [of rejecting_second initial_world
      "Some 1705308600000" "Some 1705312200000" sample_JSON_parse "userQuery sample_logger"]
  by (simp add: Let_def rejecting_second_clock initial_world_def show_simps)

text \<open>
  The claim as written has bounds in seconds multiplied by \<open>10\<^sup>9\<close>; the bounds
  1705312200 and 1705315800 go out multiplied by \<open>10\<^sup>6\<close>.
\<close>

theorem searchTranscripts_seconds_counterexample:
  "sent (snd (searchTranscripts sample_JSON_parse two_then_one (userQuery sample_logger)
                (Some 1705312200) (Some 1705315800) initial_world)) =
     [QueryRequest (''/loki/api/v1/query_range?query='' @ encodeURIComponent (userQuery sample_logger)
                      @ ''&start=1705312200000000&end=1705315800000000'')] \<and>
   show_int (1705312200 * 10 ^ 9) = ''1705312200000000000'' \<and>
   show_int (1705315800 * 10 ^ 9) = ''1705315800000000000'' \<and>
   sent (snd (searchTranscripts sample_JSON_parse two_then_one (userQuery sample_logger)
                (Some 1705312200) (Some 1705315800) initial_world)) \<noteq>
     [QueryRequest (''/loki/api/v1/query_range?query='' @ encodeURIComponent (userQuery sample_logger)
                      @ ''&start='' @ show_int (1705312200 * 10 ^ 9)
                      @ ''&end='' @ show_int (1705315800 * 10 ^ 9))]"
  by (simp add: searchTranscripts_sent query_path_def query_bounds_def initial_world_def
      Number_toString_def exact_digits_def show_simps)

text \<open>
  Claim C2, as the code has it by design. The query rejects with the message of the failed
  request when the request fails; when a response with a status from 200 to 299 arrives it
  rejects with the message of the parser when the body is not JSON, and otherwise resolves
  with the decoded value, whatever its shape. Nothing is said here of the other statuses.
\<close>

theorem searchTranscripts_outcome:
  "let r = fst (searchTranscripts JSON_parse e query start_arg end_arg w);
       reqs = sent (snd (searchTranscripts JSON_parse e query start_arg end_arg w))
   in (backend e reqs = RequestError m \<longrightarrow> r = Inl (Error (''Failed to query Loki: '' @ m))) \<and>
      (backend e reqs = Response statusCode data \<and> 200 \<le> statusCode \<and> statusCode < 300 \<longrightarrow>
         r = (case JSON_parse data of
                Inl m' \<Rightarrow> Inl (Error (''Failed to parse Loki response: '' @ m'))
              | Inr response \<Rightarrow> Inr response))"
  by (simp add: searchTranscripts_sent searchTranscripts_result Let_def)

theorem searchTranscripts_outcome_witness:
  "(let r = fst (searchTranscripts sample_JSON_parse (answering (RequestError ''socket hang up''))
                   (userQuery sample_logger) None None initial_world);
        reqs = sent (snd (searchTranscripts sample_JSON_parse (answering (RequestError ''socket hang up''))
                   (userQuery sample_logger) None None initial_world))
    in backend (answering (RequestError ''socket hang up'')) reqs = RequestError ''socket hang up'' \<and>
       r = Inl (Error ''Failed to query Loki: socket hang up'')) \<and>
   (let r = fst (searchTranscripts sample_JSON_parse (answering (Response 200 ''<html>''))
                   (userQuery sample_logger) None None initial_world);
        reqs = sent (snd (searchTranscripts sample_JSON_parse (answering (Response 200 ''<html>''))
                   (userQuery sample_logger) None None initial_world))
    in backend (answering (Response 200 ''<html>'')) reqs = Response 200 ''<html>'' \<and>
       r = Inl (Error ''Failed to parse Loki response: Unexpected token'')) \<and>
   (let r = fst (searchTranscripts sample_JSON_parse (answering (Response 200 one_stream_body))
                   (userQuery sample_logger) None None initial_world);
        reqs = sent (snd (searchTranscripts sample_JSON_parse (answering (Response 200 one_stream_body))
                   (userQuery sample_logger) None None initial_world))
    in backend (answering (Response 200 one_stream_body)) reqs = Response 200 one_stream_body \<and>
       r = Inr (query_result_json [([], [(''4'', ''d'')])]))"
  using searchTranscripts_outcome [of sample_JSON_parse "answering (RequestError ''socket hang up'')"
      "userQuery sample_logger" None None initial_world "''socket hang up''" 0 "[]"]
    searchTranscripts_outcome [of sample_JSON_parse "answering (Response 200 ''<html>'')"
      "userQuery sample_logger" None None initial_world "[]" 200 "''<html>''"]
    searchTranscripts_outcome [of sample_JSON_parse "answering (Response 200 one_stream_body)"
      "userQuery sample_logger" None None initial_world "[]" 200 one_stream_body]
  by (simp add: Let_def answering_backend sample_JSON_parse_def two_streams_body_def
      one_stream_body_def error_body_def)

text \<open>
  The claim as written has a ParseError for a body that is not a query result and a
  QueryError for a status outside 200 to 299: an error object that arrives with status 200,
  and the same with status 500, is the value the query resolves with.
\<close>

theorem searchTranscripts_lenient_counterexample:
  "fst (searchTranscripts sample_JSON_parse (answering (Response 200 error_body))
          (userQuery sample_logger) None None initial_world) =
     Inr (JObject [(''status'', JString ''error''), (''error'', JString ''parse error'')]) \<and>
   fst (searchTranscripts sample_JSON_parse (answering (Response 500 error_body))
          (userQuery sample_logger) None None initial_world) =
     Inr (JObject [(''status'', JString ''error''), (''error'', JString ''parse error'')]) \<and>
   \<not> is_query_result (JObject [(''status'', JString ''error''), (''error'', JString ''parse error'')])"
  by (simp add: searchTranscripts_result answering_backend sample_JSON_parse_def
      two_streams_body_def one_stream_body_def error_body_def)

section \<open>The Statistics Aggregator\<close>

lemma getTranscriptStats_unfold:
  "getTranscriptStats JSON_parse e this timeRange_arg w =
     (let timeRange' = (case timeRange_arg of None \<Rightarrow> ''1h'' | Some r \<Rightarrow> r);
          end' = date_now e (clock_reads w);
          w0 = w\<lparr>clock_reads := Suc (clock_reads w)\<rparr>;
          start = window_start timeRange' end';
          userLogs = searchTranscripts JSON_parse e (userQuery this) (Some start) (Some end') w0;
          zaraLogs = searchTranscripts JSON_parse e (zaraQuery this) (Some start) (Some end')
                       (snd userLogs)
      in (case promise_all (fst userLogs) (fst zaraLogs) of
            Inl err \<Rightarrow> None
          | Inr (u, z) \<Rightarrow>
              (case stats_object e timeRange' u z start end' of
                 Inl err \<Rightarrow> None
               | Inr stats \<Rightarrow> Some stats),
          snd zaraLogs))"
  by (simp add: getTranscriptStats_def Date_now_def Let_def case_prod_beta split: sum.splits)

text \<open>
  When one of the two queries rejects (its request failed, or the body of the response was
  not JSON), the caller gets null.
\<close>

lemma getTranscriptStats_null_on_rejection:
  "let end' = date_now e (clock_reads w);
       w0 = w\<lparr>clock_reads := Suc (clock_reads w)\<rparr>;
       start = window_start (case timeRange_arg of None \<Rightarrow> ''1h'' | Some r \<Rightarrow> r) end';
       userLogs = searchTranscripts JSON_parse e (userQuery this) (Some start) (Some end') w0;
       zaraLogs = searchTranscripts JSON_parse e (zaraQuery this) (Some start) (Some end')
                    (snd userLogs)
   in isl (fst userLogs) \<or> isl (fst zaraLogs) \<longrightarrow>
      fst (getTranscriptStats JSON_parse e this timeRange_arg w) = None"
  by (simp add: getTranscriptStats_unfold promise_all_def Let_def isl_def split: sum.splits)

lemma values_length_query_result:
  "map_sum id or_zero (values_length (query_result_json ss)) = Inr (JNumber (first_stream_count ss))"
proof (cases ss)
  case Nil
  then show ?thesis
    by (simp add: values_length_def query_result_json_def opt_get_def or_zero_def
        first_stream_count_def)
next
  case (Cons s rest)
  then show ?thesis
    by (simp add: values_length_def query_result_json_def stream_json_def opt_get_def
        or_zero_def first_stream_count_def)
qed

lemma values_length_error_object:
  "map_sum id or_zero
     (values_length (JObject [(''status'', JString ''error''), (''error'', JString ''parse error'')]))
     = Inr (JNumber 0)"
  by (simp add: values_length_def opt_get_def or_zero_def)

lemma sample_window: "window_start ''1h'' 1705312200000 = 1705308600000"
  by (simp add: window_start_def)

lemma sample_bounds:
  "query_bounds e (Some 1705308600000) (Some 1705312200000) w = (1705308600000, 1705312200000)"
  by (simp add: query_bounds_def)

lemma two_then_one_env:
  "backend two_then_one reqs =
     (if length reqs = 1 then Response 200 two_streams_body else Response 200 one_stream_body)"
  "date_now two_then_one k = 1705312200000"
  by (simp_all add: two_then_one_def sample_env_def)

lemma second_refused_env:
  "backend second_refused reqs =
     (if length reqs = 1 then Response 200 one_stream_body else Response 500 error_body)"
  "date_now second_refused k = 1705312200000"
  by (simp_all add: second_refused_def sample_env_def)

lemma sample_parses:
  "sample_JSON_parse two_streams_body =
     Inr (query_result_json [([], [(''1'', ''a'')]), ([], [(''2'', ''b''), (''3'', ''c'')])])"
  "sample_JSON_parse one_stream_body = Inr (query_result_json [([], [(''4'', ''d'')])])"
  "sample_JSON_parse error_body =
     Inr (JObject [(''status'', JString ''error''), (''error'', JString ''parse error'')])"
  by (simp_all add: sample_JSON_parse_def two_streams_body_def one_stream_body_def error_body_def)

lemma stats_object_counts:
  assumes "map_sum id or_zero (values_length u) = Inr (JNumber a)"
    and "map_sum id or_zero (values_length z) = Inr (JNumber b)"
    and "\<bar>a\<bar> \<le> 9007199254740992" and "\<bar>b\<bar> \<le> 9007199254740992"
    and "\<bar>a + b\<bar> \<le> 9007199254740992"
    and "\<bar>start\<bar> \<le> 8640000000000000" and "\<bar>end'\<bar> \<le> 8640000000000000"
  shows "stats_object e timeRange' u z start end' =
     Inr \<lparr>timeRange = timeRange', userMessages = JNumber a, zaraMessages = JNumber b,
          totalMessages = JNumber (a + b), startTime = ISOString start,
          endTime = ISOString end'\<rparr>"
proof -
  obtain lu where lu: "values_length u = Inr lu" and ou: "or_zero lu = JNumber a"
    using assms(1) by (cases "values_length u") auto
  obtain lz where lz: "values_length z = Inr lz" and oz: "or_zero lz = JNumber b"
    using assms(2) by (cases "values_length z") auto
  from assms(3-7) show ?thesis
    by (simp add: stats_object_def lu lz ou oz toISOString_def js_plus_def)
qed

text \<open>
  Claim C7, the code at a result of two streams. The query for \<open>user\<close> returns two
  streams with one and two values, three values in all; the count for \<open>user\<close> is 1,
  the number of values of the first stream, and the total is 2, not 4.
\<close>

theorem getTranscriptStats_counts_only_first_stream:
  "fst (searchTranscripts sample_JSON_parse two_then_one (userQuery sample_logger)
          (Some 1705308600000) (Some 1705312200000) (snd (Date_now two_then_one initial_world))) =
     Inr (query_result_json [([], [(''1'', ''a'')]), ([], [(''2'', ''b''), (''3'', ''c'')])]) \<and>
   all_streams_count [([], [(''1'', ''a'')]), ([], [(''2'', ''b''), (''3'', ''c'')])] = 3 \<and>
   fst (getTranscriptStats sample_JSON_parse two_then_one sample_logger None initial_world) =
     Some \<lparr>timeRange = ''1h'', userMessages = JNumber 1, zaraMessages = JNumber 1,
           totalMessages = JNumber 2, startTime = ISOString 1705308600000,
           endTime = ISOString 1705312200000\<rparr>"
proof -
  have user: "fst (searchTranscripts sample_JSON_parse two_then_one (userQuery sample_logger)
          (Some 1705308600000) (Some 1705312200000) (snd (Date_now two_then_one initial_world))) =
     Inr (query_result_json [([], [(''1'', ''a'')]), ([], [(''2'', ''b''), (''3'', ''c'')])])"
    by (simp add: searchTranscripts_result sample_bounds two_then_one_env sample_parses
        Date_now_def initial_world_def)
  have zara: "fst (searchTranscripts sample_JSON_parse two_then_one (zaraQuery sample_logger)
          (Some 1705308600000) (Some 1705312200000)
          (snd (searchTranscripts sample_JSON_parse two_then_one (userQuery sample_logger)
            (Some 1705308600000) (Some 1705312200000) (snd (Date_now two_then_one initial_world))))) =
     Inr (query_result_json [([], [(''4'', ''d'')])])"
    by (simp add: searchTranscripts_result searchTranscripts_sent sample_bounds two_then_one_env
        sample_parses Date_now_def initial_world_def)
  have object: "stats_object two_then_one ''1h''
      (query_result_json [([], [(''1'', ''a'')]), ([], [(''2'', ''b''), (''3'', ''c'')])])
      (query_result_json [([], [(''4'', ''d'')])]) 1705308600000 1705312200000 =
     Inr \<lparr>timeRange = ''1h'', userMessages = JNumber 1, zaraMessages = JNumber 1,
          totalMessages = JNumber (1 + 1), startTime = ISOString 1705308600000,
          endTime = ISOString 1705312200000\<rparr>"
    by (rule stats_object_counts) (simp_all add: values_length_query_result first_stream_count_def)
  have "fst (getTranscriptStats sample_JSON_parse two_then_one sample_logger None initial_world) =
     Some \<lparr>timeRange = ''1h'', userMessages = JNumber 1, zaraMessages = JNumber 1,
           totalMessages = JNumber 2, startTime = ISOString 1705308600000,
           endTime = ISOString 1705312200000\<rparr>"
    using user zara object
    by (simp add: getTranscriptStats_unfold Let_def two_then_one_env sample_window promise_all_def
        Date_now_def initial_world_def)
  with user show ?thesis
    by (simp add: all_streams_count_def)
qed

text \<open>
  Claim C3, the code at a query that the backend refuses. The query for \<open>user\<close> is
  answered with one stream of one value, the query for \<open>zara\<close> with status 500 and an
  error object: the caller gets statistics with a count of 0 for \<open>zara\<close> and a total of 1.
\<close>

theorem getTranscriptStats_partial_counts_on_500:
  "map (\<lambda>k. backend second_refused
              (take k (sent (snd (getTranscriptStats sample_JSON_parse second_refused sample_logger
                                    None initial_world))))) [1, 2] =
     [Response 200 one_stream_body, Response 500 error_body] \<and>
   fst (getTranscriptStats sample_JSON_parse second_refused sample_logger None initial_world) =
     Some \<lparr>timeRange = ''1h'', userMessages = JNumber 1, zaraMessages = JNumber 0,
           totalMessages = JNumber 1, startTime = ISOString 1705308600000,
           endTime = ISOString 1705312200000\<rparr>"
proof -
  have user: "fst (searchTranscripts sample_JSON_parse second_refused (userQuery sample_logger)
          (Some 1705308600000) (Some 1705312200000) (snd (Date_now second_refused initial_world))) =
     Inr (query_result_json [([], [(''4'', ''d'')])])"
    by (simp add: searchTranscripts_result sample_bounds second_refused_env sample_parses
        Date_now_def initial_world_def)
  have zara: "fst (searchTranscripts sample_JSON_parse second_refused (zaraQuery sample_logger)
          (Some 1705308600000) (Some 1705312200000)
          (snd (searchTranscripts sample_JSON_parse second_refused (userQuery sample_logger)
            (Some 1705308600000) (Some 1705312200000) (snd (Date_now second_refused initial_world))))) =
     Inr (JObject [(''status'', JString ''error''), (''error'', JString ''parse error'')])"
    by (simp add: searchTranscripts_result searchTranscripts_sent sample_bounds second_refused_env
        sample_parses Date_now_def initial_world_def)
  have object: "stats_object second_refused ''1h''
      (query_result_json [([], [(''4'', ''d'')])])
      (JObject [(''status'', JString ''error''), (''error'', JString ''parse error'')])
      1705308600000 1705312200000 =
     Inr \<lparr>timeRange = ''1h'', userMessages = JNumber 1, zaraMessages = JNumber 0,
          totalMessages = JNumber (1 + 0), startTime = ISOString 1705308600000,
          endTime = ISOString 1705312200000\<rparr>"
    by (rule stats_object_counts)
       (simp_all add: values_length_query_result values_length_error_object first_stream_count_def)
  have stats: "fst (getTranscriptStats sample_JSON_parse second_refused sample_logger None initial_world) =
     Some \<lparr>timeRange = ''1h'', userMessages = JNumber 1, zaraMessages = JNumber 0,
           totalMessages = JNumber 1, startTime = ISOString 1705308600000,
           endTime = ISOString 1705312200000\<rparr>"
    using user zara object
    by (simp add: getTranscriptStats_unfold Let_def second_refused_env sample_window promise_all_def
        Date_now_def initial_world_def)
  have "length (sent (snd (getTranscriptStats sample_JSON_parse second_refused sample_logger
                                    None initial_world))) = 2"
    by (simp add: getTranscriptStats_unfold Let_def searchTranscripts_sent initial_world_def)
  then have "map (\<lambda>k. backend second_refused
              (take k (sent (snd (getTranscriptStats sample_JSON_parse second_refused sample_logger
                                    None initial_world))))) [1, 2] =
     [Response 200 one_stream_body, Response 500 error_body]"
    by (simp add: second_refused_env)
  with stats show ?thesis
    by simp
qed

end
